theory Spec2Isabelle
  imports Complex_Main "HOL-Library.Sublist"
begin

section \<open>Python values\<close>

text \<open>
  Python strings are character lists. Two characters cannot be written inside a string
  literal next to an interpolated value, so they get names: the newline and the
  apostrophe.
\<close>

definition nl :: char where
  "nl = CHR 0x0A"

definition apos :: char where
  "apos = CHR 0x27"

text \<open>The exceptions that the modelled code can raise, as values.\<close>

datatype py_error =
    KeyError string
  | IndexError
  | JSONDecodeError
  | ServiceError string

text \<open>\<^verbatim>\<open>d[key]\<close> on a dictionary with string keys: a missing key raises \<^verbatim>\<open>KeyError\<close>.\<close>

definition getitem :: "(string \<rightharpoonup> 'v) \<Rightarrow> string \<Rightarrow> py_error + 'v" where
  "getitem d key = (case d key of None \<Rightarrow> Inl (KeyError key) | Some v \<Rightarrow> Inr v)"

text \<open>\<^verbatim>\<open>str(i)\<close> for a non-negative integer: its decimal digits.\<close>

fun str_nat :: "nat \<Rightarrow> string" where
  "str_nat n =
     (if n < 10 then [''0123456789'' ! n]
      else str_nat (n div 10) @ [''0123456789'' ! (n mod 10)])"

declare str_nat.simps [simp del]

text \<open>
  \<^verbatim>\<open>s.lower()\<close>. The letters \<^verbatim>\<open>A\<close> to \<^verbatim>\<open>Z\<close> map to \<^verbatim>\<open>a\<close> to \<^verbatim>\<open>z\<close>; every other
  character (a byte of the UTF-8 encoding when it is not ASCII) is kept. No character
  outside ASCII lowercases to one of the letters of \<^verbatim>\<open>line\<close>, \<^verbatim>\<open>bar\<close> or \<^verbatim>\<open>pie\<close>, so the
  comparisons of the visualizer come out as in Python.
\<close>

definition lower_char :: "char \<Rightarrow> char" where
  "lower_char c =
     (case map_of (zip ''ABCDEFGHIJKLMNOPQRSTUVWXYZ'' ''abcdefghijklmnopqrstuvwxyz'') c of
        None \<Rightarrow> c
      | Some l \<Rightarrow> l)"

definition str_lower :: "string \<Rightarrow> string" where
  "str_lower s = map lower_char s"


text \<open>A text given line by line: every line is followed by a newline.\<close>

definition unlines :: "string list \<Rightarrow> string" where
  "unlines ls = concat (map (\<lambda>l. l @ [nl]) ls)"

section \<open>The data model\<close>

text \<open>
  A metric is the dictionary decoded from the service's answer. Its values are strings,
  as the data model types the five fields; a field can be absent, the decoder checks
  nothing. The metric set is the dictionary that holds the list under the key
  \<^verbatim>\<open>metrics\<close>.
\<close>

type_synonym metric = "string \<rightharpoonup> string"

type_synonym metric_set = "string \<rightharpoonup> metric list"

section \<open>Schema Normalizer\<close>




section \<open>Metric Proposer\<close>

text \<open>The prompt: the f-string of \<open>analyze_schema\<close>, with both inputs interpolated.\<close>

definition prompt_text :: "string \<Rightarrow> string \<Rightarrow> string" where
  \<open>prompt_text schema_content description =
     ''Given this database schema:'' @ [nl] @
     ''        '' @ schema_content @ [nl] @
     ''        '' @ [nl] @
     ''        And this use case description:'' @ [nl] @
     ''        '' @ description @ [nl] @
     ''        '' @ [nl] @
     ''        Propose key metrics to track over time for monitoring this application through its database.'' @ [nl] @
     ''        Return the response as a JSON object with this structure:'' @ [nl] @
     ''        {'' @ [nl] @
     ''            "metrics": ['' @ [nl] @
     ''                {'' @ [nl] @
     ''                    "name": "metric name",'' @ [nl] @
     ''                    "description": "what this metric measures",'' @ [nl] @
     ''                    "sql_query": "SQL query to calculate this metric",'' @ [nl] @
     ''                    "visualization_type": "recommended plot type (line/bar/etc)",'' @ [nl] @
     ''                    "update_frequency": "how often this should update"'' @ [nl] @
     ''                }'' @ [nl] @
     ''            ]'' @ [nl] @
     ''        }''\<close>

text \<open>The request sent to the reasoning service and the part of its answer that is read.\<close>

record request =
  model :: string
  max_tokens :: nat
  messages :: "(string \<times> string) list"

record response =
  content :: "string list"

text \<open>
  \<open>analyze_schema\<close>. The service call and the JSON decoder are the two library functions
  it uses; both are parameters. The call either raises or answers; the decoder gives
  \<open>None\<close> where \<^verbatim>\<open>json.loads\<close> raises its decoding error. The type of decoded values is
  left open.
\<close>

definition analyze_schema ::
  "(string \<Rightarrow> 'j option) \<Rightarrow> (request \<Rightarrow> py_error + response) \<Rightarrow> string \<Rightarrow> string \<Rightarrow> py_error + 'j"
where
  "analyze_schema json_loads messages_create schema_content description =
     (let prompt = prompt_text schema_content description in
      case messages_create
             \<lparr>model = ''claude-3-sonnet-20240229'', max_tokens = 2000,
              messages = [(''user'', prompt)]\<rparr> of
        Inl e \<Rightarrow> Inl e
      | Inr response \<Rightarrow>
          (case content response of
             [] \<Rightarrow> Inl IndexError
           | text # _ \<Rightarrow>
               (case json_loads text of
                  None \<Rightarrow> Inl JSONDecodeError
                | Some v \<Rightarrow> Inr v)))"

text \<open>
  Decoded JSON values, and the shape the prompt asks for. Numbers stand as integers; no
  statement below reads one.
\<close>

datatype json =
    JNull
  | JBool bool
  | JNumber int
  | JString string
  | JArray "json list"
  | JObject "(string \<times> json) list"

fun is_string :: "json option \<Rightarrow> bool" where
  "is_string (Some (JString _)) = True"
| "is_string _ = False"

fun is_metric :: "json \<Rightarrow> bool" where
  "is_metric (JObject members) =
     (is_string (map_of members ''name'') \<and>
      is_string (map_of members ''description'') \<and>
      is_string (map_of members ''sql_query'') \<and>
      is_string (map_of members ''visualization_type'') \<and>
      is_string (map_of members ''update_frequency''))"
| "is_metric _ = False"

fun has_metrics_shape :: "json \<Rightarrow> bool" where
  "has_metrics_shape (JObject members) =
     (case map_of members ''metrics'' of
        Some (JArray items) \<Rightarrow> list_all is_metric items
      | _ \<Rightarrow> False)"
| "has_metrics_shape _ = False"

section \<open>Sample Visualizer\<close>

text \<open>
  The global random generator of the numeric library is state: an unbounded supply of
  standard normal draws and of raw integer draws. A call takes as many draws as the
  requested number and leaves the rest. Floating point numbers are read as reals; the
  properties below concern how many values are drawn, not their rounding.
\<close>

record np_random =
  normal_draws :: "nat \<Rightarrow> real"
  integer_draws :: "nat \<Rightarrow> nat"

definition random_normal :: "real \<Rightarrow> real \<Rightarrow> nat \<Rightarrow> np_random \<Rightarrow> real list \<times> np_random" where
  "random_normal loc scale n g =
     (map (\<lambda>k. loc + scale * normal_draws g k) [0..<n],
      g\<lparr>normal_draws := \<lambda>k. normal_draws g (k + n)\<rparr>)"

definition random_randint :: "int \<Rightarrow> int \<Rightarrow> nat \<Rightarrow> np_random \<Rightarrow> real list \<times> np_random" where
  "random_randint low high n g =
     (map (\<lambda>k. of_int (low + int (integer_draws g k) mod (high - low))) [0..<n],
      g\<lparr>integer_draws := \<lambda>k. integer_draws g (k + n)\<rparr>)"

fun cumsum_from :: "real \<Rightarrow> real list \<Rightarrow> real list" where
  "cumsum_from acc [] = []"
| "cumsum_from acc (v # vs) = (acc + v) # cumsum_from (acc + v) vs"

definition cumsum :: "real list \<Rightarrow> real list" where
  "cumsum vs = cumsum_from 0 vs"

text \<open>
  \<^verbatim>\<open>pd.date_range(start, periods=n)\<close> with the default daily frequency: \<open>n\<close> consecutive
  days. A day is its ordinal number; 2024-01-01 is day 738886.
\<close>

definition date_range :: "int \<Rightarrow> nat \<Rightarrow> int list" where
  "date_range start periods = map (\<lambda>k. start + int k) [0..<periods]"

text \<open>The chart object: what the plotting calls are given, and the layout settings.\<close>

datatype chart_kind = Line | Bar | Pie | Scatter

record figure =
  fig_kind :: chart_kind
  fig_x :: "int list"
  fig_y :: "real list"
  fig_names :: "string list"
  fig_title :: string
  title_x :: "real option"
  margin :: "(nat \<times> nat \<times> nat \<times> nat) option"
  height :: "nat option"

definition px_line :: "int list \<Rightarrow> real list \<Rightarrow> string \<Rightarrow> figure" where
  "px_line x y t =
     \<lparr>fig_kind = Line, fig_x = x, fig_y = y, fig_names = [], fig_title = t,
      title_x = None, margin = None, height = None\<rparr>"

definition px_bar :: "int list \<Rightarrow> real list \<Rightarrow> string \<Rightarrow> figure" where
  "px_bar x y t =
     \<lparr>fig_kind = Bar, fig_x = x, fig_y = y, fig_names = [], fig_title = t,
      title_x = None, margin = None, height = None\<rparr>"

definition px_pie :: "real list \<Rightarrow> string list \<Rightarrow> string \<Rightarrow> figure" where
  "px_pie vals names t =
     \<lparr>fig_kind = Pie, fig_x = [], fig_y = vals, fig_names = names, fig_title = t,
      title_x = None, margin = None, height = None\<rparr>"

definition px_scatter :: "int list \<Rightarrow> real list \<Rightarrow> string \<Rightarrow> figure" where
  "px_scatter x y t =
     \<lparr>fig_kind = Scatter, fig_x = x, fig_y = y, fig_names = [], fig_title = t,
      title_x = None, margin = None, height = None\<rparr>"

definition update_layout :: "figure \<Rightarrow> figure" where
  "update_layout fig =
     fig\<lparr>title_x := Some (1 / 2), margin := Some (50, 20, 20, 20), height := Some 400\<rparr>"

text \<open>
  The test \<^verbatim>\<open>metric['visualization_type'].lower() == kind\<close> of one branch: the lookup
  can raise.
\<close>

definition type_is :: "metric \<Rightarrow> string \<Rightarrow> py_error + bool" where
  "type_is metric kind =
     (case getitem metric ''visualization_type'' of
        Inl e \<Rightarrow> Inl e
      | Inr t \<Rightarrow> Inr (str_lower t = kind))"

definition generate_sample_visualization ::
  "metric \<Rightarrow> np_random \<Rightarrow> (py_error + figure) \<times> np_random"
where
  "generate_sample_visualization metric g =
     (let dates = date_range 738886 30;
          (fig, g') =
            (case type_is metric ''line'' of
               Inl e \<Rightarrow> (Inl e, g)
             | Inr True \<Rightarrow>
                 (let (draws, g') = random_normal 10 2 30 g;
                      vals = cumsum draws
                  in (case getitem metric ''name'' of
                        Inl e \<Rightarrow> (Inl e, g')
                      | Inr name \<Rightarrow> (Inr (px_line dates vals name), g')))
             | Inr False \<Rightarrow>
                 (case type_is metric ''bar'' of
                    Inl e \<Rightarrow> (Inl e, g)
                  | Inr True \<Rightarrow>
                      (let (vals, g') = random_randint 10 100 30 g
                       in (case getitem metric ''name'' of
                             Inl e \<Rightarrow> (Inl e, g')
                           | Inr name \<Rightarrow> (Inr (px_bar dates vals name), g')))
                  | Inr False \<Rightarrow>
                      (case type_is metric ''pie'' of
                         Inl e \<Rightarrow> (Inl e, g)
                       | Inr True \<Rightarrow>
                           (let labels =
                                  [''Category A'', ''Category B'', ''Category C'', ''Category D''];
                                (vals, g') = random_randint 10 100 4 g
                            in (case getitem metric ''name'' of
                                  Inl e \<Rightarrow> (Inl e, g')
                                | Inr name \<Rightarrow> (Inr (px_pie vals labels name), g')))
                       | Inr False \<Rightarrow>
                           (let (vals, g') = random_randint 10 100 30 g
                            in (case getitem metric ''name'' of
                                  Inl e \<Rightarrow> (Inl e, g')
                                | Inr name \<Rightarrow> (Inr (px_scatter dates vals name), g'))))))
      in (case fig of
            Inl e \<Rightarrow> (Inl e, g')
          | Inr fig \<Rightarrow> (Inr (update_layout fig), g')))"

section \<open>Dashboard Code Generator\<close>

text \<open>
  The three fixed parts of the template, line by line: the text up to the list of tabs,
  the text between the tabs and the lookup table, and the text after the table.
\<close>

definition layout_lines :: "string list" where
  \<open>layout_lines =
    [''import dash'',
     ''from dash import html, dcc'',
     ''from dash.dependencies import Input, Output'',
     ''import plotly.express as px'',
     ''import plotly.graph_objects as go'',
     ''import pandas as pd'',
     ''import numpy as np'',
     ''from datetime import datetime, timedelta'',
     ''import psycopg2  # For PostgreSQL connection'',
     '''',
     ''# Initialize the Dash app'',
     ''app = dash.Dash(__name__)'',
     '''',
     ''# Database connection function'',
     ''def get_db_connection():'',
     ''    return psycopg2.connect('',
     ''        dbname="your_database",'',
     ''        user="your_user",'',
     ''        password="your_password",'',
     ''        host="your_host",'',
     ''        port="your_port"'',
     ''    )'',
     '''',
     ''# Layout'',
     ''app.layout = html.Div(['',
     ''    html.H1("Database Metrics Dashboard", style={'textAlign': 'center'}),'',
     ''    html.Div(['',
     ''        dcc.Tabs(id='metric-tabs', value='tab-0', children=['']\<close>

definition callback_lines :: "string list" where
  \<open>callback_lines =
    [''        ]),'',
     ''        html.Div(id='metric-content')'',
     ''    ])'',
     ''])'',
     '''',
     ''# Callback to update content'',
     ''@app.callback('',
     ''    Output('metric-content', 'children'),'',
     ''    Input('metric-tabs', 'value')'',
     '')'',
     ''def update_metric(tab):'',
     ''    metrics = {'']\<close>

definition routine_lines :: "string list" where
  \<open>routine_lines =
    [''    }'',
     ''    '',
     ''    if tab not in metrics:'',
     ''        return html.Div("No metric selected")'',
     ''    '',
     ''    # Execute query and get data'',
     ''    try:'',
     ''        conn = get_db_connection()'',
     ''        df = pd.read_sql_query(metrics[tab]['query'], conn)'',
     ''        conn.close()'',
     ''        '',
     ''        # Create visualization based on type'',
     ''        if metrics[tab]['type'].lower() == 'line':'',
     ''            fig = px.line(df, x='timestamp', y='value', title=metrics[tab]['name'])'',
     ''        elif metrics[tab]['type'].lower() == 'bar':'',
     ''            fig = px.bar(df, x='timestamp', y='value', title=metrics[tab]['name'])'',
     ''        else:'',
     ''            fig = px.scatter(df, x='timestamp', y='value', title=metrics[tab]['name'])'',
     ''            '',
     ''        return html.Div(['',
     ''            dcc.Graph(figure=fig)'',
     ''        ])'',
     ''    except Exception as e:'',
     ''        return html.Div(f"Error: {str(e)}")'',
     '''',
     ''if __name__ == '__main__':'',
     ''    app.run_server(debug=True)'']\<close>

text \<open>The line added for the metric at position \<open>i\<close> by the first loop.\<close>

definition tab_line :: "nat \<Rightarrow> string \<Rightarrow> string" where
  "tab_line i name =
     ''            dcc.Tab(label='' @ [apos] @ name @ [apos] @ '', value='' @ [apos] @
     ''tab-'' @ str_nat i @ [apos] @ ''),''"

text \<open>The five lines added for the metric at position \<open>i\<close> by the second loop.\<close>

definition entry_lines :: "nat \<Rightarrow> string \<Rightarrow> string \<Rightarrow> string \<Rightarrow> string list" where
  "entry_lines i name sql_query visualization_type =
     [''        '' @ [apos] @ ''tab-'' @ str_nat i @ [apos] @ '': {'',
      ''            '' @ [apos] @ ''name'' @ [apos] @ '': '' @ [apos] @ name @ [apos] @ '','',
      ''            '' @ [apos] @ ''query'' @ [apos] @ '': '' @ [apos, apos, apos] @ sql_query @
        [apos, apos, apos] @ '','',
      ''            '' @ [apos] @ ''type'' @ [apos] @ '': '' @ [apos] @ visualization_type @ [apos],
      ''        },'']"

text \<open>
  The two loops over \<^verbatim>\<open>enumerate(metrics['metrics'])\<close>. Each appends to the text built so
  far; a missing field raises at the metric that lacks it.
\<close>

fun tabs_loop :: "(nat \<times> metric) list \<Rightarrow> string \<Rightarrow> py_error + string" where
  "tabs_loop [] dashboard_code = Inr dashboard_code"
| "tabs_loop ((i, metric) # rest) dashboard_code =
     (case getitem metric ''name'' of
        Inl e \<Rightarrow> Inl e
      | Inr name \<Rightarrow> tabs_loop rest (dashboard_code @ unlines [tab_line i name]))"

fun entries_loop :: "(nat \<times> metric) list \<Rightarrow> string \<Rightarrow> py_error + string" where
  "entries_loop [] dashboard_code = Inr dashboard_code"
| "entries_loop ((i, metric) # rest) dashboard_code =
     (case getitem metric ''name'' of
        Inl e \<Rightarrow> Inl e
      | Inr name \<Rightarrow>
          (case getitem metric ''sql_query'' of
             Inl e \<Rightarrow> Inl e
           | Inr sql_query \<Rightarrow>
               (case getitem metric ''visualization_type'' of
                  Inl e \<Rightarrow> Inl e
                | Inr visualization_type \<Rightarrow>
                    entries_loop rest
                      (dashboard_code @
                       unlines (entry_lines i name sql_query visualization_type)))))"

definition generate_dashboard_code :: "metric_set \<Rightarrow> py_error + string" where
  "generate_dashboard_code metrics =
     (let dashboard_code = unlines layout_lines in
      case getitem metrics ''metrics'' of
        Inl e \<Rightarrow> Inl e
      | Inr tab_metrics \<Rightarrow>
          (case tabs_loop (enumerate 0 tab_metrics) dashboard_code of
             Inl e \<Rightarrow> Inl e
           | Inr dashboard_code \<Rightarrow>
               (let dashboard_code = dashboard_code @ unlines callback_lines in
                case getitem metrics ''metrics'' of
                  Inl e \<Rightarrow> Inl e
                | Inr entry_metrics \<Rightarrow>
                    (case entries_loop (enumerate 0 entry_metrics) dashboard_code of
                       Inl e \<Rightarrow> Inl e
                     | Inr dashboard_code \<Rightarrow> Inr (dashboard_code @ unlines routine_lines)))))"

text \<open>
  The update routine that the generated text defines (\<^verbatim>\<open>update_metric\<close> in the last part
  of the template), over the lookup table it is given. The database read is a
  parameter: it gives the data frame, or the message of the exception it raises, which
  the guarded block turns into the inline error message.
\<close>

record table_entry =
  entry_name :: string
  entry_query :: string
  entry_type :: string

datatype 'df rendered =
    No_Metric_Selected
  | Graph chart_kind 'df string
  | Error_Message string

definition update_metric ::
  "(string \<rightharpoonup> table_entry) \<Rightarrow> (string \<Rightarrow> string + 'df) \<Rightarrow> string \<Rightarrow> 'df rendered"
where
  "update_metric metrics read_sql_query tab =
     (case metrics tab of
        None \<Rightarrow> No_Metric_Selected
      | Some entry \<Rightarrow>
          (case read_sql_query (entry_query entry) of
             Inl e \<Rightarrow> Error_Message (''Error: '' @ e)
           | Inr df \<Rightarrow>
               (if str_lower (entry_type entry) = ''line'' then Graph Line df (entry_name entry)
                else if str_lower (entry_type entry) = ''bar'' then Graph Bar df (entry_name entry)
                else Graph Scatter df (entry_name entry))))"

section \<open>Reading the generated text\<close>







section \<open>One request\<close>




section \<open>Notions used in the statements\<close>

text \<open>
  A metric carries the three fields that the generator reads, with the given values;
  and none of the three values holds a newline.
\<close>

definition carries :: "metric \<Rightarrow> string \<times> string \<times> string \<Rightarrow> bool" where
  "carries m f =
     (case f of (n, q, t) \<Rightarrow>
        m ''name'' = Some n \<and> m ''sql_query'' = Some q \<and> m ''visualization_type'' = Some t)"


text \<open>The three fields of a metric as the generator finds them, present or not.\<close>

definition read_fields :: "metric \<Rightarrow> string option \<times> string option \<times> string option" where
  "read_fields m = (m ''name'', m ''sql_query'', m ''visualization_type'')"

text \<open>Two metrics agree on the three fields that the generator reads.\<close>

definition same_read_fields :: "metric \<Rightarrow> metric \<Rightarrow> bool" where
  "same_read_fields m m' = (read_fields m = read_fields m')"

text \<open>The missing-key errors that the generator can raise on a metric.\<close>

definition field_errors :: "(py_error + string) set" where
  "field_errors =
     {Inl (KeyError ''name''), Inl (KeyError ''sql_query''), Inl (KeyError ''visualization_type'')}"

text \<open>The request that \<open>analyze_schema\<close> sends for a schema and a description.\<close>

definition proposal_request :: "string \<Rightarrow> string \<Rightarrow> request" where
  "proposal_request schema_content description =
     \<lparr>model = ''claude-3-sonnet-20240229'', max_tokens = 2000,
      messages = [(''user'', prompt_text schema_content description)]\<rparr>"

text \<open>The four fixed labels of the pie branch.\<close>

definition category_labels :: "string list" where
  "category_labels = [''Category A'', ''Category B'', ''Category C'', ''Category D'']"


text \<open>
  The lines of the text that the generator builds from fields present in every metric:
  the fixed parts around one tab line and one lookup-table entry per metric.
\<close>

definition code_lines :: "(string \<times> string \<times> string) list \<Rightarrow> string list" where
  "code_lines fs =
     layout_lines @ map (\<lambda>(i, n, q, t). tab_line i n) (enumerate 0 fs) @ callback_lines @
     concat (map (\<lambda>(i, n, q, t). entry_lines i n q t) (enumerate 0 fs)) @ routine_lines"

section \<open>Example inputs\<close>

text \<open>
  The metric of the end-to-end scenario, a second metric, and the set of both with the
  three fields that the generator reads from each.
\<close>

definition daily_revenue :: metric where
  "daily_revenue =
     [''name'' \<mapsto> ''Daily Revenue'',
      ''description'' \<mapsto> ''sum of order totals per day'',
      ''sql_query'' \<mapsto> ''SELECT date, SUM(total) FROM orders GROUP BY date'',
      ''visualization_type'' \<mapsto> ''line'',
      ''update_frequency'' \<mapsto> ''daily'']"

definition order_count :: metric where
  "order_count =
     [''name'' \<mapsto> ''Order Count'',
      ''description'' \<mapsto> ''number of orders per day'',
      ''sql_query'' \<mapsto> ''SELECT date, COUNT(*) FROM orders GROUP BY date'',
      ''visualization_type'' \<mapsto> ''Bar'',
      ''update_frequency'' \<mapsto> ''hourly'']"

definition two_metrics :: metric_set where
  "two_metrics = [''metrics'' \<mapsto> [daily_revenue, order_count]]"




text \<open>
  The first metric with another description and no update frequency, and the set that
  holds it in place of the first.
\<close>

definition redescribed :: metric where
  "redescribed = daily_revenue(''description'' \<mapsto> ''revenue'', ''update_frequency'' := None)"

definition two_redescribed :: metric_set where
  "two_redescribed = [''metrics'' \<mapsto> [redescribed, order_count]]"

text \<open>Two states of the random generator, and a session on each.\<close>

definition steady_draws :: np_random where
  "steady_draws = \<lparr>normal_draws = (\<lambda>k. 0), integer_draws = (\<lambda>k. 0)\<rparr>"




text \<open>
  The first metric with its visualization type in capitals, as a pie and as a line, and
  with the empty string as its type.
\<close>

definition shouting_pie :: metric where
  "shouting_pie = daily_revenue(''visualization_type'' \<mapsto> ''PIE'')"

definition shouting_line :: metric where
  "shouting_line = daily_revenue(''visualization_type'' \<mapsto> ''LINE'')"

definition blank_type :: metric where
  "blank_type = daily_revenue(''visualization_type'' \<mapsto> [])"

text \<open>
  The metric of the scenario without its description and update frequency, and the same
  metric without its visualization type, its name and its query.
\<close>

definition bare_metric :: metric where
  "bare_metric =
     [''name'' \<mapsto> ''Daily Revenue'',
      ''sql_query'' \<mapsto> ''SELECT date, SUM(total) FROM orders GROUP BY date'',
      ''visualization_type'' \<mapsto> ''line'']"

definition untyped_metric :: metric where
  "untyped_metric = daily_revenue(''visualization_type'' := None)"

definition unnamed_metric :: metric where
  "unnamed_metric = daily_revenue(''name'' := None)"

definition unqueried_metric :: metric where
  "unqueried_metric = daily_revenue(''sql_query'' := None)"

text \<open>
  A reasoning service that answers every request with one block of the given text, and
  the decoder on the two answers used below: \<^verbatim>\<open>{}\<close> is the empty object, and the other
  answer, a plain sentence, is not JSON.
\<close>

definition answering :: "string \<Rightarrow> request \<Rightarrow> py_error + response" where
  "answering text req = Inr \<lparr>content = [text]\<rparr>"

definition decode_table :: "string \<Rightarrow> json option" where
  "decode_table text = (if text = ''{}'' then Some (JObject []) else None)"







section \<open>Lines of a text\<close>

lemma unlines_append: "unlines (a @ b) = unlines a @ unlines b"
  by (simp add: unlines_def)








section \<open>Decimal digits\<close>




section \<open>The lines of the template\<close>
















section \<open>The generator on metrics that carry their fields\<close>

lemma tabs_loop_carries:
  "list_all2 carries ms fs \<Longrightarrow>
   tabs_loop (enumerate k ms) code =
     Inr (code @ unlines (map (\<lambda>(i, n, q, t). tab_line i n) (enumerate k fs)))"
proof (induction ms fs arbitrary: k code rule: list_all2_induct)
  case Nil
  show ?case by (simp add: unlines_def)
next
  case (Cons m ms f fs)
  obtain n q t where f: "f = (n, q, t)"
    by (cases f) auto
  have "m ''name'' = Some n"
    using Cons.hyps(1) f by (simp add: carries_def)
  then show ?case
    using Cons.IH [of "Suc k"] f by (simp add: getitem_def unlines_def)
qed

lemma entries_loop_carries:
  "list_all2 carries ms fs \<Longrightarrow>
   entries_loop (enumerate k ms) code =
     Inr (code @ unlines (concat (map (\<lambda>(i, n, q, t). entry_lines i n q t) (enumerate k fs))))"
proof (induction ms fs arbitrary: k code rule: list_all2_induct)
  case Nil
  show ?case by (simp add: unlines_def)
next
  case (Cons m ms f fs)
  obtain n q t where f: "f = (n, q, t)"
    by (cases f) auto
  have "m ''name'' = Some n" "m ''sql_query'' = Some q" "m ''visualization_type'' = Some t"
    using Cons.hyps(1) f by (simp_all add: carries_def)
  then show ?case
    using Cons.IH [of "Suc k"] f by (simp add: getitem_def unlines_append)
qed

lemma generate_carries:
  assumes "metrics ''metrics'' = Some ms" and "list_all2 carries ms fs"
  shows "generate_dashboard_code metrics = Inr (unlines (code_lines fs))"
  using assms
  by (simp add: generate_dashboard_code_def getitem_def tabs_loop_carries [OF assms(2)]
      entries_loop_carries [OF assms(2)] unlines_append code_lines_def)










section \<open>The generator on metrics that agree on the fields it reads\<close>

lemma tabs_loop_same:
  "list_all2 same_read_fields ms ms' \<Longrightarrow>
   tabs_loop (enumerate k ms) code = tabs_loop (enumerate k ms') code"
proof (induction ms ms' arbitrary: k code rule: list_all2_induct)
  case Nil
  show ?case by simp
next
  case (Cons m ms m' ms')
  have "m ''name'' = m' ''name''"
    using Cons.hyps(1) by (simp add: same_read_fields_def read_fields_def)
  then show ?case
    using Cons.IH [of "Suc k"] by (simp add: getitem_def split: option.splits)
qed

lemma entries_loop_same:
  "list_all2 same_read_fields ms ms' \<Longrightarrow>
   entries_loop (enumerate k ms) code = entries_loop (enumerate k ms') code"
proof (induction ms ms' arbitrary: k code rule: list_all2_induct)
  case Nil
  show ?case by simp
next
  case (Cons m ms m' ms')
  have "m ''name'' = m' ''name''" "m ''sql_query'' = m' ''sql_query''"
    "m ''visualization_type'' = m' ''visualization_type''"
    using Cons.hyps(1) by (simp_all add: same_read_fields_def read_fields_def)
  then show ?case
    using Cons.IH [of "Suc k"] by (simp add: getitem_def split: option.splits)
qed

section \<open>Calls within a session\<close>





section \<open>The sample visualizer\<close>

lemma lower_char_idem: "lower_char (lower_char c) = lower_char c"
  by (simp add: lower_char_def)

lemma str_lower_idem: "str_lower (str_lower s) = str_lower s"
  by (simp add: str_lower_def lower_char_idem)

lemma lower_line: "str_lower ''line'' = ''line''" "str_lower ''LINE'' = ''line''"
  "str_lower ''Line'' = ''line''" "str_lower ''PIE'' = ''pie''" "str_lower ''Bar'' = ''bar''"
  "str_lower '''' = ''''" "str_lower ''scatter'' = ''scatter''"
  by (simp_all add: str_lower_def lower_char_def)

lemma type_is_present:
  "m ''visualization_type'' = Some v \<Longrightarrow> type_is m k = Inr (str_lower v = k)"
  by (simp add: type_is_def getitem_def)

lemma type_is_absent:
  "m ''visualization_type'' = None \<Longrightarrow> type_is m k = Inl (KeyError ''visualization_type'')"
  by (simp add: type_is_def getitem_def)

lemma visualization_reads:
  assumes "\<And>k. type_is m k = type_is m' k" and "m ''name'' = m' ''name''"
  shows "generate_sample_visualization m g = generate_sample_visualization m' g"
  using assms
  by (simp add: generate_sample_visualization_def getitem_def
      cong: sum.case_cong bool.case_cong option.case_cong)

lemma length_random_normal: "length (fst (random_normal loc scale n g)) = n"
  by (simp add: random_normal_def)

lemma length_random_randint: "length (fst (random_randint low high n g)) = n"
  by (simp add: random_randint_def)

lemma length_cumsum_from: "length (cumsum_from acc vs) = length vs"
  by (induction vs arbitrary: acc) auto

lemma length_cumsum: "length (cumsum vs) = length vs"
  by (simp add: cumsum_def length_cumsum_from)

lemma length_date_range: "length (date_range start n) = n"
  by (simp add: date_range_def)

lemma visualization_present:
  assumes "m ''visualization_type'' = Some v" and "m ''name'' = Some n"
  shows "generate_sample_visualization m g =
    (if str_lower v = ''line'' then
       (Inr (update_layout (px_line (date_range 738886 30)
               (cumsum (fst (random_normal 10 2 30 g))) n)),
        snd (random_normal 10 2 30 g))
     else if str_lower v = ''bar'' then
       (Inr (update_layout (px_bar (date_range 738886 30) (fst (random_randint 10 100 30 g)) n)),
        snd (random_randint 10 100 30 g))
     else if str_lower v = ''pie'' then
       (Inr (update_layout (px_pie (fst (random_randint 10 100 4 g)) category_labels n)),
        snd (random_randint 10 100 4 g))
     else
       (Inr (update_layout (px_scatter (date_range 738886 30)
               (fst (random_randint 10 100 30 g)) n)),
        snd (random_randint 10 100 30 g)))"
  using assms
  by (simp add: generate_sample_visualization_def type_is_present getitem_def Let_def
      category_labels_def split: prod.splits)


section \<open>Missing fields\<close>

lemma visualization_untyped:
  "m ''visualization_type'' = None \<Longrightarrow>
   generate_sample_visualization m g = (Inl (KeyError ''visualization_type''), g)"
  by (simp add: generate_sample_visualization_def type_is_absent)

lemma visualization_unnamed:
  assumes "m ''visualization_type'' = Some v" and "m ''name'' = None"
  shows "fst (generate_sample_visualization m g) = Inl (KeyError ''name'')"
  using assms
  by (simp add: generate_sample_visualization_def type_is_present getitem_def Let_def
      split: prod.splits bool.splits)

lemma tabs_loop_result:
  "tabs_loop ims code = Inl (KeyError ''name'') \<or> (\<exists>code'. tabs_loop ims code = Inr code')"
proof (induction ims arbitrary: code)
  case Nil
  show ?case by simp
next
  case (Cons im ims)
  obtain i m where im: "im = (i, m)"
    by (cases im) auto
  show ?case
    using Cons [of "code @ unlines [tab_line i (the (m ''name''))]"] im
    by (cases "m ''name''") (auto simp: getitem_def)
qed

lemma entries_loop_lacking:
  assumes "m \<in> set ms"
    and "m ''name'' = None \<or> m ''sql_query'' = None \<or> m ''visualization_type'' = None"
  shows "entries_loop (enumerate k ms) code \<in> field_errors"
  using assms(1)
proof (induction ms arbitrary: k code)
  case Nil
  then show ?case by simp
next
  case (Cons a ms)
  show ?case
  proof (cases "a ''name'' = None \<or> a ''sql_query'' = None \<or> a ''visualization_type'' = None")
    case True
    then show ?thesis
      by (auto simp: getitem_def field_errors_def split: option.splits)
  next
    case False
    then have "m \<in> set ms"
      using Cons.prems assms(2) by auto
    then have "entries_loop (enumerate (Suc k) ms)
        (code @ unlines (entry_lines k (the (a ''name'')) (the (a ''sql_query''))
           (the (a ''visualization_type'')))) \<in> field_errors"
      by (rule Cons.IH)
    then show ?thesis
      using False by (auto simp: getitem_def)
  qed
qed

lemma generate_lacking:
  assumes "metrics ''metrics'' = Some ms" and "m \<in> set ms"
    and "m ''name'' = None \<or> m ''sql_query'' = None \<or> m ''visualization_type'' = None"
  shows "generate_dashboard_code metrics \<in> field_errors"
proof -
  consider "tabs_loop (enumerate 0 ms) (unlines layout_lines) = Inl (KeyError ''name'')"
    | code' where "tabs_loop (enumerate 0 ms) (unlines layout_lines) = Inr code'"
    using tabs_loop_result by blast
  then show ?thesis
  proof cases
    case 1
    then show ?thesis
      using assms(1) by (simp add: generate_dashboard_code_def getitem_def field_errors_def)
  next
    case 2
    have "entries_loop (enumerate 0 ms) (code' @ unlines callback_lines) \<in> field_errors"
      using assms(2,3) by (rule entries_loop_lacking)
    then show ?thesis
      using assms(1) 2
      by (auto simp: generate_dashboard_code_def getitem_def field_errors_def)
  qed
qed

lemma generate_carried:
  assumes "metrics ''metrics'' = Some ms"
    and "list_all (\<lambda>m. m ''name'' \<noteq> None \<and> m ''sql_query'' \<noteq> None \<and>
           m ''visualization_type'' \<noteq> None) ms"
  shows "\<not> isl (generate_dashboard_code metrics)"
proof -
  have "\<exists>fs. list_all2 carries ms fs"
    using assms(2)
  proof (induction ms)
    case Nil
    show ?case by simp
  next
    case (Cons m ms)
    then obtain fs where fs: "list_all2 carries ms fs"
      by auto
    obtain n q t where "m ''name'' = Some n" "m ''sql_query'' = Some q"
      "m ''visualization_type'' = Some t"
      using Cons.prems by auto
    then have "carries m (n, q, t)"
      by (simp add: carries_def)
    then have "list_all2 carries (m # ms) ((n, q, t) # fs)"
      using fs by simp
    then show ?case ..
  qed
  then obtain fs where "list_all2 carries ms fs" ..
  then show ?thesis
    using assms(1) generate_carries [of metrics ms] by auto
qed

section \<open>The proposer and the normalizer\<close>

lemma analyze_schema_answer:
  assumes "messages_create (proposal_request schema_content description) = Inr answer"
    and "content answer = reply # others"
  shows "analyze_schema json_loads messages_create schema_content description =
           (case json_loads reply of None \<Rightarrow> Inl JSONDecodeError | Some v \<Rightarrow> Inr v)"
  using assms by (simp add: analyze_schema_def proposal_request_def)




section \<open>Tabs and lookup-table entries of the generated text\<close>




section \<open>Decoding the answer of the reasoning service\<close>

text \<open>
  Claim C2, amended. When the service answers and the text of its first block is not
  valid JSON, \<open>analyze_schema\<close> raises the decoding error and returns nothing; when the
  text is valid JSON, it returns the decoded value as it is, whatever its shape.
\<close>

theorem analyze_schema_decoding:
  assumes "messages_create (proposal_request schema_content description) = Inr answer"
    and "content answer = reply # others"
  shows "(json_loads reply = None \<longrightarrow>
            analyze_schema json_loads messages_create schema_content description =
              Inl JSONDecodeError) \<and>
         (\<forall>decoded. json_loads reply = Some decoded \<longrightarrow>
            analyze_schema json_loads messages_create schema_content description = Inr decoded)"
  using assms
    analyze_schema_answer [of messages_create schema_content description answer reply others
      json_loads]
  by simp

text \<open>The theorem at an answer that is not JSON and at an answer that is.\<close>

theorem analyze_schema_replies:
  "analyze_schema decode_table (answering ''I propose no metrics.'')
     ''CREATE TABLE orders (id INT, total FLOAT);'' ''e-commerce order tracking'' =
     Inl JSONDecodeError \<and>
   analyze_schema decode_table (answering ''{}'')
     ''CREATE TABLE orders (id INT, total FLOAT);'' ''e-commerce order tracking'' =
     Inr (JObject [])"
proof -
  have a: "analyze_schema decode_table (answering ''I propose no metrics.'')
     ''CREATE TABLE orders (id INT, total FLOAT);'' ''e-commerce order tracking'' =
     Inl JSONDecodeError"
    using analyze_schema_decoding [of "answering ''I propose no metrics.''"
        "''CREATE TABLE orders (id INT, total FLOAT);''" "''e-commerce order tracking''"
        "\<lparr>content = [''I propose no metrics.'']\<rparr>" "''I propose no metrics.''" "[]" decode_table]
    by (simp add: answering_def decode_table_def)
  have b: "analyze_schema decode_table (answering ''{}'')
     ''CREATE TABLE orders (id INT, total FLOAT);'' ''e-commerce order tracking'' =
     Inr (JObject [])"
    using analyze_schema_decoding [of "answering ''{}''"
        "''CREATE TABLE orders (id INT, total FLOAT);''" "''e-commerce order tracking''"
        "\<lparr>content = [''{}'']\<rparr>" "''{}''" "[]" decode_table]
    by (simp add: answering_def decode_table_def)
  show ?thesis
    using a b by simp
qed

text \<open>
  Claim C2 as stated fails for valid JSON of another shape: the empty object has no
  \<^verbatim>\<open>metrics\<close> list, and \<open>analyze_schema\<close> returns it.
\<close>

theorem analyze_schema_returns_other_shape:
  "decode_table ''{}'' = Some (JObject []) \<and>
   \<not> has_metrics_shape (JObject []) \<and>
   analyze_schema decode_table (answering ''{}'')
     ''CREATE TABLE orders (id INT, total FLOAT);'' ''e-commerce order tracking'' =
     Inr (JObject [])"
  by (simp add: decode_table_def analyze_schema_def answering_def)

section \<open>Determinism of the generator\<close>



section \<open>Series of the sample chart\<close>

text \<open>
  Claim C4, amended. For every metric that carries a name and a visualization type, the
  sample visualizer returns a chart titled with the name, and the kind and the length of
  its series follow the lowercased visualization type: \<^verbatim>\<open>line\<close> and \<^verbatim>\<open>bar\<close> give a line and
  a bar chart of 30 points over 30 dates, \<^verbatim>\<open>pie\<close> gives 4 values over the 4 fixed category
  labels, and every other string gives the scatter chart of 30 points.
\<close>

theorem sample_visualization_series:
  assumes "metric ''visualization_type'' = Some v" and "metric ''name'' = Some n"
  shows "\<exists>fig g'. generate_sample_visualization metric g = (Inr fig, g') \<and>
           fig_title fig = n \<and>
           (if str_lower v = ''line'' then
              fig_kind fig = Line \<and> length (fig_y fig) = 30 \<and> length (fig_x fig) = 30
            else if str_lower v = ''bar'' then
              fig_kind fig = Bar \<and> length (fig_y fig) = 30 \<and> length (fig_x fig) = 30
            else if str_lower v = ''pie'' then
              fig_kind fig = Pie \<and> length (fig_y fig) = 4 \<and> fig_names fig = category_labels
            else
              fig_kind fig = Scatter \<and> length (fig_y fig) = 30 \<and> length (fig_x fig) = 30)"
  by (simp add: visualization_present [OF assms] update_layout_def px_line_def px_bar_def
      px_pie_def px_scatter_def length_random_normal length_random_randint length_cumsum
      length_date_range)

text \<open>
  The theorem at the metric of the end-to-end scenario, and at the same metric with the
  empty string as its type.
\<close>

theorem sample_visualization_daily_revenue:
  "daily_revenue ''visualization_type'' = Some ''line'' \<and>
   daily_revenue ''name'' = Some ''Daily Revenue'' \<and>
   (\<exists>fig g'. generate_sample_visualization daily_revenue steady_draws = (Inr fig, g') \<and>
      fig_title fig = ''Daily Revenue'' \<and> fig_kind fig = Line \<and> length (fig_y fig) = 30) \<and>
   blank_type ''visualization_type'' = Some [] \<and>
   blank_type ''name'' = Some ''Daily Revenue'' \<and>
   (\<exists>fig g'. generate_sample_visualization blank_type steady_draws = (Inr fig, g') \<and>
      fig_title fig = ''Daily Revenue'' \<and> fig_kind fig = Scatter \<and> length (fig_y fig) = 30)"
proof -
  have a: "daily_revenue ''visualization_type'' = Some ''line''"
    and b: "daily_revenue ''name'' = Some ''Daily Revenue''"
    by (simp_all add: daily_revenue_def)
  have c: "blank_type ''visualization_type'' = Some []"
    and d: "blank_type ''name'' = Some ''Daily Revenue''"
    by (simp_all add: blank_type_def daily_revenue_def)
  have e: "\<exists>fig g'. generate_sample_visualization daily_revenue steady_draws = (Inr fig, g') \<and>
      fig_title fig = ''Daily Revenue'' \<and> fig_kind fig = Line \<and> length (fig_y fig) = 30"
    using a b
      sample_visualization_series [of daily_revenue "''line''" "''Daily Revenue''" steady_draws]
    by (auto simp: lower_line)
  have f: "\<exists>fig g'. generate_sample_visualization blank_type steady_draws = (Inr fig, g') \<and>
      fig_title fig = ''Daily Revenue'' \<and> fig_kind fig = Scatter \<and> length (fig_y fig) = 30"
    using c d
      sample_visualization_series [of blank_type "[]" "''Daily Revenue''" steady_draws]
    by (auto simp: str_lower_def)
  show ?thesis
    using a b c d e f by blast
qed

text \<open>
  Claim C4 as stated fails: the type is compared after lowercasing, so \<^verbatim>\<open>PIE\<close>, a string
  other than \<^verbatim>\<open>line\<close>, \<^verbatim>\<open>bar\<close> and \<^verbatim>\<open>pie\<close>, does not fall back to the scatter chart of 30
  points but gives the pie chart of 4 values.
\<close>

theorem sample_visualization_shouting_pie:
  "shouting_pie ''visualization_type'' = Some ''PIE'' \<and>
   map_sum id fig_kind (fst (generate_sample_visualization shouting_pie steady_draws)) = Inr Pie \<and>
   map_sum id (length \<circ> fig_y) (fst (generate_sample_visualization shouting_pie steady_draws)) =
     Inr 4"
proof -
  have a: "shouting_pie ''visualization_type'' = Some ''PIE''"
    and b: "shouting_pie ''name'' = Some ''Daily Revenue''"
    by (simp_all add: shouting_pie_def daily_revenue_def)
  show ?thesis
    by (simp add: a visualization_present [OF a b] lower_line update_layout_def px_pie_def
        length_random_randint)
qed

section \<open>Statements that the normalizer retains\<close>



section \<open>The empty metric set\<close>


section \<open>Metrics that lack a field\<close>

text \<open>
  Claim C7, amended. A metric without a visualization type, or with one and without a
  name, makes the sample visualizer raise the missing-key error of that field; a metric
  set that holds a metric without a name, a query or a visualization type makes the
  generator raise the missing-key error of one of these three fields. Description and
  update frequency are read by neither: a metric with a name and a visualization type is
  drawn, and a set whose metrics have the three fields is rendered. Nothing rejects a
  metric earlier: the proposer returns whatever value the decoder gives.
\<close>

theorem missing_field_errors:
  "(metric ''visualization_type'' = None \<longrightarrow>
      fst (generate_sample_visualization metric g) = Inl (KeyError ''visualization_type'')) \<and>
   (metric ''visualization_type'' \<noteq> None \<and> metric ''name'' = None \<longrightarrow>
      fst (generate_sample_visualization metric g) = Inl (KeyError ''name'')) \<and>
   (metric ''visualization_type'' \<noteq> None \<and> metric ''name'' \<noteq> None \<longrightarrow>
      \<not> isl (fst (generate_sample_visualization metric g))) \<and>
   (metrics ''metrics'' = Some ms \<and> m \<in> set ms \<and>
      (m ''name'' = None \<or> m ''sql_query'' = None \<or> m ''visualization_type'' = None) \<longrightarrow>
      generate_dashboard_code metrics \<in> field_errors) \<and>
   (metrics ''metrics'' = Some ms \<and>
      list_all (\<lambda>m. m ''name'' \<noteq> None \<and> m ''sql_query'' \<noteq> None \<and>
        m ''visualization_type'' \<noteq> None) ms \<longrightarrow>
      \<not> isl (generate_dashboard_code metrics)) \<and>
   (messages_create (proposal_request schema_content description) = Inr answer \<and>
      content answer = reply # others \<and> json_loads reply = Some decoded \<longrightarrow>
      analyze_schema json_loads messages_create schema_content description = Inr decoded)"
proof (intro conjI impI)
  assume "metric ''visualization_type'' = None"
  then show "fst (generate_sample_visualization metric g) = Inl (KeyError ''visualization_type'')"
    by (simp add: visualization_untyped)
next
  assume "metric ''visualization_type'' \<noteq> None \<and> metric ''name'' = None"
  then show "fst (generate_sample_visualization metric g) = Inl (KeyError ''name'')"
    using visualization_unnamed by auto
next
  assume "metric ''visualization_type'' \<noteq> None \<and> metric ''name'' \<noteq> None"
  then obtain v n where "metric ''visualization_type'' = Some v" "metric ''name'' = Some n"
    by auto
  then show "\<not> isl (fst (generate_sample_visualization metric g))"
    by (simp add: visualization_present)
next
  assume "metrics ''metrics'' = Some ms \<and> m \<in> set ms \<and>
    (m ''name'' = None \<or> m ''sql_query'' = None \<or> m ''visualization_type'' = None)"
  then show "generate_dashboard_code metrics \<in> field_errors"
    using generate_lacking by blast
next
  assume "metrics ''metrics'' = Some ms \<and>
    list_all (\<lambda>m. m ''name'' \<noteq> None \<and> m ''sql_query'' \<noteq> None \<and>
      m ''visualization_type'' \<noteq> None) ms"
  then show "\<not> isl (generate_dashboard_code metrics)"
    using generate_carried by blast
next
  assume "messages_create (proposal_request schema_content description) = Inr answer \<and>
    content answer = reply # others \<and> json_loads reply = Some decoded"
  then show "analyze_schema json_loads messages_create schema_content description = Inr decoded"
    using analyze_schema_answer [of messages_create schema_content description answer reply others
        json_loads]
    by simp
qed

text \<open>The theorem at metrics that lack one field each, and at metrics that lack none.\<close>

theorem missing_field_examples:
  "fst (generate_sample_visualization untyped_metric steady_draws) =
     Inl (KeyError ''visualization_type'') \<and>
   fst (generate_sample_visualization unnamed_metric steady_draws) = Inl (KeyError ''name'') \<and>
   \<not> isl (fst (generate_sample_visualization daily_revenue steady_draws)) \<and>
   generate_dashboard_code [''metrics'' \<mapsto> [daily_revenue, unqueried_metric]] \<in> field_errors \<and>
   \<not> isl (generate_dashboard_code two_metrics) \<and>
   analyze_schema decode_table (answering ''{}'') ''CREATE TABLE orders (id INT);'' ''orders'' =
     Inr (JObject [])"
proof -
  have a: "fst (generate_sample_visualization untyped_metric steady_draws) =
      Inl (KeyError ''visualization_type'')"
    using missing_field_errors [of untyped_metric steady_draws, THEN conjunct1]
    by (simp add: untyped_metric_def)
  have b: "fst (generate_sample_visualization unnamed_metric steady_draws) = Inl (KeyError ''name'')"
    using missing_field_errors [of unnamed_metric steady_draws, THEN conjunct2, THEN conjunct1]
    by (simp add: unnamed_metric_def daily_revenue_def)
  have c: "\<not> isl (fst (generate_sample_visualization daily_revenue steady_draws))"
    using missing_field_errors [of daily_revenue steady_draws, THEN conjunct2, THEN conjunct2,
        THEN conjunct1]
    by (simp add: daily_revenue_def)
  have d: "generate_dashboard_code [''metrics'' \<mapsto> [daily_revenue, unqueried_metric]] \<in>
      field_errors"
    using missing_field_errors [of _ _ "[''metrics'' \<mapsto> [daily_revenue, unqueried_metric]]"
        "[daily_revenue, unqueried_metric]" unqueried_metric, THEN conjunct2, THEN conjunct2,
        THEN conjunct2, THEN conjunct1]
    by (simp add: unqueried_metric_def)
  have e: "\<not> isl (generate_dashboard_code two_metrics)"
    using missing_field_errors [of _ _ two_metrics "[daily_revenue, order_count]", THEN conjunct2,
        THEN conjunct2, THEN conjunct2, THEN conjunct2, THEN conjunct1]
    by (simp add: two_metrics_def daily_revenue_def order_count_def)
  have f: "analyze_schema decode_table (answering ''{}'') ''CREATE TABLE orders (id INT);''
      ''orders'' = Inr (JObject [])"
    using missing_field_errors [of _ _ _ _ _ "answering ''{}''"
        "''CREATE TABLE orders (id INT);''" "''orders''" "\<lparr>content = [''{}'']\<rparr>" "''{}''" "[]"
        decode_table "JObject []", THEN conjunct2, THEN conjunct2, THEN conjunct2, THEN conjunct2,
        THEN conjunct2]
    by (simp add: answering_def decode_table_def)
  show ?thesis
    using a b c d e f by simp
qed

text \<open>
  Claim C7 as stated fails for two of the five fields: a metric without description
  and update frequency is drawn by the sample visualizer and rendered by the generator.
\<close>

theorem rendered_without_description:
  "bare_metric ''description'' = None \<and>
   bare_metric ''update_frequency'' = None \<and>
   \<not> isl (fst (generate_sample_visualization bare_metric steady_draws)) \<and>
   \<not> isl (generate_dashboard_code [''metrics'' \<mapsto> [bare_metric]])"
proof -
  have a: "bare_metric ''visualization_type'' = Some ''line''"
    and b: "bare_metric ''name'' = Some ''Daily Revenue''"
    by (simp_all add: bare_metric_def)
  have c: "list_all2 carries [bare_metric]
      [(''Daily Revenue'', ''SELECT date, SUM(total) FROM orders GROUP BY date'', ''line'')]"
    by (simp add: carries_def bare_metric_def)
  have d: "[''metrics'' \<mapsto> [bare_metric]] ''metrics'' = Some [bare_metric]"
    by simp
  have e: "generate_dashboard_code [''metrics'' \<mapsto> [bare_metric]] =
      Inr (unlines (code_lines
        [(''Daily Revenue'', ''SELECT date, SUM(total) FROM orders GROUP BY date'', ''line'')]))"
    using c d generate_carries [of "[''metrics'' \<mapsto> [bare_metric]]" "[bare_metric]"]
    by blast
  show ?thesis
    by (simp add: visualization_present [OF a b] e) (simp add: bare_metric_def)
qed

section \<open>The metric set is only read\<close>


section \<open>The fields that the generator reads\<close>

text \<open>
  Claim C9. Two metric sets of the same length whose metrics agree, position by
  position, on name, query and visualization type get the same result from the
  generator, whatever their descriptions and update frequencies.
\<close>

theorem dashboard_code_reads_three_fields:
  assumes "metrics ''metrics'' = Some ms"
    and "metrics' ''metrics'' = Some ms'"
    and "list_all2 same_read_fields ms ms'"
  shows "generate_dashboard_code metrics = generate_dashboard_code metrics'"
  using assms(1,2)
  by (simp add: generate_dashboard_code_def getitem_def tabs_loop_same [OF assms(3)]
      entries_loop_same [OF assms(3)] Let_def split: sum.splits)

text \<open>The theorem at two sets that differ in a description and an update frequency.\<close>

theorem dashboard_code_redescribed:
  "two_metrics ''metrics'' = Some [daily_revenue, order_count] \<and>
   two_redescribed ''metrics'' = Some [redescribed, order_count] \<and>
   list_all2 same_read_fields [daily_revenue, order_count] [redescribed, order_count] \<and>
   daily_revenue ''description'' \<noteq> redescribed ''description'' \<and>
   daily_revenue ''update_frequency'' \<noteq> redescribed ''update_frequency'' \<and>
   generate_dashboard_code two_metrics = generate_dashboard_code two_redescribed"
proof -
  have a: "two_metrics ''metrics'' = Some [daily_revenue, order_count]"
    by (simp add: two_metrics_def)
  have b: "two_redescribed ''metrics'' = Some [redescribed, order_count]"
    by (simp add: two_redescribed_def)
  have c: "list_all2 same_read_fields [daily_revenue, order_count] [redescribed, order_count]"
    by (simp add: same_read_fields_def read_fields_def redescribed_def)
  have d: "daily_revenue ''description'' \<noteq> redescribed ''description''"
    "daily_revenue ''update_frequency'' \<noteq> redescribed ''update_frequency''"
    by (simp_all add: redescribed_def daily_revenue_def)
  show ?thesis
    using a b c d
      dashboard_code_reads_three_fields [of two_metrics "[daily_revenue, order_count]"
        two_redescribed "[redescribed, order_count]"]
    by simp
qed

section \<open>Case of the visualization type\<close>

text \<open>
  Claim C10. The sample visualizer gives the same result for a metric and for the
  metric with its visualization type lowercased: the branch is chosen on the lowercased
  string.
\<close>

theorem sample_visualization_case_insensitive:
  assumes "metric ''visualization_type'' = Some v"
  shows "generate_sample_visualization (metric(''visualization_type'' \<mapsto> str_lower v)) g =
         generate_sample_visualization metric g"
proof (rule visualization_reads)
  fix k
  show "type_is (metric(''visualization_type'' \<mapsto> str_lower v)) k = type_is metric k"
    using assms by (simp add: type_is_present str_lower_idem)
next
  show "(metric(''visualization_type'' \<mapsto> str_lower v)) ''name'' = metric ''name''"
    by simp
qed

text \<open>The theorem at the type \<^verbatim>\<open>LINE\<close>, which selects the line chart.\<close>

theorem sample_visualization_shouting_line:
  "shouting_line ''visualization_type'' = Some ''LINE'' \<and>
   str_lower ''LINE'' = ''line'' \<and>
   generate_sample_visualization (shouting_line(''visualization_type'' \<mapsto> ''line'')) steady_draws =
     generate_sample_visualization shouting_line steady_draws \<and>
   map_sum id fig_kind (fst (generate_sample_visualization shouting_line steady_draws)) = Inr Line"
proof -
  have a: "shouting_line ''visualization_type'' = Some ''LINE''"
    by (simp add: shouting_line_def)
  have b: "(shouting_line(''visualization_type'' \<mapsto> ''line'')) ''name'' = Some ''Daily Revenue''"
    by (simp add: shouting_line_def daily_revenue_def)
  have c: "(shouting_line(''visualization_type'' \<mapsto> ''line'')) ''visualization_type'' = Some ''line''"
    by simp
  have d: "map_sum id fig_kind (fst (generate_sample_visualization
      (shouting_line(''visualization_type'' \<mapsto> ''line'')) steady_draws)) = Inr Line"
    by (simp add: visualization_present [OF c b] lower_line update_layout_def px_line_def)
  show ?thesis
    using a d sample_visualization_case_insensitive [of shouting_line "''LINE''" steady_draws]
    by (simp add: lower_line)
qed

end
